theory Spec2Isabelle
  imports Complex_Main
begin

section \<open>Python primitives used by the coverage pipeline\<close>

text \<open>
  Python strings are modelled as \<^typ>\<open>string\<close>, read as sequences of code points below 256.
  Python integers are \<^typ>\<open>int\<close>; list lengths and loop indices are \<^typ>\<open>nat\<close>.
\<close>

type_synonym path = string

definition is_digit :: "char \<Rightarrow> bool" where
  "is_digit c = (c \<in> set ''0123456789'')"

definition digit_char :: "nat \<Rightarrow> char" where
  "digit_char d = ''0123456789'' ! d"

definition digit_val :: "char \<Rightarrow> nat" where
  "digit_val c = of_char c - 48"

text \<open>\<open>str(n)\<close> for a non-negative integer: its decimal digits, most significant first.\<close>

function str_nat :: "nat \<Rightarrow> string" where
  "str_nat n = (if n < 10 then [digit_char n] else str_nat (n div 10) @ [digit_char (n mod 10)])"
  by pat_completeness auto
termination
  by (relation "measure id") auto

declare str_nat.simps [simp del]

definition str_int :: "int \<Rightarrow> string" where
  "str_int i = (if i < 0 then ''-'' @ str_nat (nat (- i)) else str_nat (nat i))"

text \<open>\<open>int(s)\<close> for a string of decimal digits, as a regular-expression group \<open>\d+\<close> yields.\<close>

definition int_of_digits :: "string \<Rightarrow> int" where
  "int_of_digits ds = foldl (\<lambda>a c. 10 * a + int (digit_val c)) 0 ds"

text \<open>\<open>str.isspace\<close> on code points below 256, and \<open>str.strip()\<close>.\<close>

definition isspace :: "char \<Rightarrow> bool" where
  "isspace c = ((of_char c :: nat) \<in> {9, 10, 11, 12, 13, 28, 29, 30, 31, 32, 133, 160})"

definition strip :: "string \<Rightarrow> string" where
  "strip s = rev (dropWhile isspace (rev (dropWhile isspace s)))"

definition startswith :: "string \<Rightarrow> string \<Rightarrow> bool" where
  "startswith s p = (take (length p) s = p)"

text \<open>\<open>sub in s\<close> on strings: \<open>sub\<close> occurs in \<open>s\<close> as a contiguous substring.\<close>

fun contains :: "string \<Rightarrow> string \<Rightarrow> bool" where
  "contains sub [] = (sub = [])"
| "contains sub (c # cs) = (startswith (c # cs) sub \<or> contains sub cs)"

text \<open>\<open>str.lower()\<close> on code points below 256: A-Z and the Latin-1 capitals move up by 32.\<close>

definition lower_char :: "char \<Rightarrow> char" where
  "lower_char c = (let n = (of_char c :: nat) in
     if (65 \<le> n \<and> n \<le> 90) \<or> (192 \<le> n \<and> n \<le> 222 \<and> n \<noteq> 215)
     then char_of (n + 32) else c)"

definition lower :: "string \<Rightarrow> string" where
  "lower s = map lower_char s"

text \<open>\<open>os.path.join\<close> of two components (POSIX).\<close>

definition path_join :: "path \<Rightarrow> path \<Rightarrow> path" where
  "path_join a b =
     (if startswith b ''/'' then b
      else if a = [] \<or> last a = CHR ''/'' then a @ b
      else a @ ''/'' @ b)"

text \<open>
  A Python float as the comparisons of the pipeline see it: a finite value, an infinity or
  NaN. Every comparison with NaN is false; NaN and the infinities are truthy, zero is not.
\<close>

datatype pyfloat = Finite real | PosInf | NegInf | NaN

fun float_lt :: "pyfloat \<Rightarrow> real \<Rightarrow> bool" where
  "float_lt (Finite x) c = (x < c)"
| "float_lt NegInf c = True"
| "float_lt PosInf c = False"
| "float_lt NaN c = False"

fun float_ge :: "pyfloat \<Rightarrow> real \<Rightarrow> bool" where
  "float_ge (Finite x) c = (x \<ge> c)"
| "float_ge PosInf c = True"
| "float_ge NegInf c = False"
| "float_ge NaN c = False"

fun truthy :: "pyfloat option \<Rightarrow> bool" where
  "truthy None = False"
| "truthy (Some (Finite x)) = (x \<noteq> 0)"
| "truthy (Some _) = True"


section \<open>Data model\<close>

record CoverageResult =
  problem_id :: string
  tests_passed :: int
  tests_failed :: int
  total_tests :: int
  line_coverage :: pyfloat
  statement_coverage :: pyfloat
  branch_coverage :: "pyfloat option"
  statements_covered :: int
  statements_total :: int
  interpretation_msg :: string
  error_details :: "string list"
  html_report_path :: string


section \<open>Target inspector: \<open>_extract_function_name\<close>\<close>

text \<open>
  The syntax tree that \<open>ast.parse\<close> returns, as far as the inspector looks at it: every
  node has a kind and its child nodes in the order of \<open>ast.iter_child_nodes\<close>; a
  \<open>FunctionDef\<close> carries its name. \<open>ast.walk\<close> keeps a queue, pops its first node, appends
  that node's children and yields the node: a breadth-first traversal.
\<close>

datatype node_kind =
  Module | FunctionDef string | AsyncFunctionDef string | ClassDef string | OtherNode

datatype ast = Node (kind: node_kind) (children: "ast list")

function walk_queue :: "ast list \<Rightarrow> ast list" where
  "walk_queue [] = []"
| "walk_queue (n # todo) = n # walk_queue (todo @ children n)"
  by pat_completeness auto
termination
  apply (relation "measure (\<lambda>q. sum_list (map size q))")
   apply simp
  subgoal for n todo by (cases n) (simp add: size_list_conv_sum_list)
  done

definition walk :: "ast \<Rightarrow> ast list" where
  "walk tree = walk_queue [tree]"

text \<open>The loop over the walked nodes: return the first \<open>FunctionDef\<close> with a public name.\<close>

fun first_public_function :: "ast list \<Rightarrow> string option" where
  "first_public_function [] = None"
| "first_public_function (n # ns) =
     (case kind n of
        FunctionDef name \<Rightarrow>
          (if \<not> startswith name ''_'' then Some name else first_public_function ns)
      | _ \<Rightarrow> first_public_function ns)"

text \<open>
  The argument is the outcome of reading and parsing the file: \<open>Inl msg\<close> when \<open>open\<close>,
  \<open>read\<close> or \<open>ast.parse\<close> raised, \<open>Inr tree\<close> otherwise.
\<close>

definition extract_function_name :: "string + ast \<Rightarrow> string" where
  "extract_function_name parsed =
     (case parsed of
        Inl e \<Rightarrow> ''candidate''
      | Inr tree \<Rightarrow>
          (case first_public_function (walk tree) of
             Some name \<Rightarrow> name
           | None \<Rightarrow> ''candidate''))"







section \<open>Test harness generator: \<open>_create_test_file\<close>\<close>

definition harness_header :: "string \<Rightarrow> string \<Rightarrow> string \<Rightarrow> string" where
  "harness_header solution_dir solution_module func_name =
     ''# Auto-generated pytest test file\<newline>'' @
     ''import sys\<newline>'' @
     ''sys.path.insert(0, r'' @ [CHR 0x27] @ solution_dir @ [CHR 0x27] @ '')\<newline>'' @
     ''\<newline>'' @
     ''try:\<newline>'' @
     ''    from '' @ solution_module @ '' import '' @ func_name @ ''\<newline>'' @
     ''except ImportError as e:\<newline>'' @
     ''    print(f'' @ [CHR 0x22] @ ''Import error: {e}'' @ [CHR 0x22] @ '')\<newline>'' @
     ''    '' @ func_name @ '' = None\<newline>'' @
     ''\<newline>'' @
     ''# Create alias '' @ [CHR 0x27] @ ''candidate'' @ [CHR 0x27] @
       '' to call the actual function\<newline>'' @
     ''candidate = '' @ func_name @ ''\<newline>'' @
     ''\<newline>''"

text \<open>The body of the loop: the text appended for test case number \<open>i\<close>.\<close>

definition test_function :: "nat \<Rightarrow> string \<Rightarrow> string" where
  "test_function i test_case =
     (let test_code = strip test_case;
          test_code = (if \<not> startswith test_code ''assert''
                       then ''assert '' @ test_code else test_code)
      in ''def test_case_'' @ str_nat i @ ''():\<newline>'' @
         ''    '' @ [CHR 0x22, CHR 0x22, CHR 0x22] @ ''Test case '' @ str_nat (i + 1) @
           [CHR 0x22, CHR 0x22, CHR 0x22] @ ''\<newline>'' @
         ''    '' @ test_code @ ''\<newline>'' @
         ''\<newline>'')"

text \<open>\<open>for i, test_case in enumerate(test_cases): test_content += ...\<close>\<close>

fun add_test_functions :: "nat \<Rightarrow> string list \<Rightarrow> string \<Rightarrow> string" where
  "add_test_functions i [] test_content = test_content"
| "add_test_functions i (test_case # rest) test_content =
     add_test_functions (Suc i) rest (test_content @ test_function i test_case)"

text \<open>
  The generator returns the path of the test file and, here, the text it writes there.
  \<open>solution_module\<close> and \<open>solution_dir\<close> are what \<open>pathlib\<close> computes from the source
  path (its stem and the absolute path of its directory).
\<close>

definition create_test_file ::
  "string \<Rightarrow> string \<Rightarrow> string list \<Rightarrow> string \<Rightarrow> path \<Rightarrow> path \<times> string" where
  "create_test_file solution_dir solution_module test_cases func_name temp_dir =
     (let test_file_path = path_join temp_dir ''test_coverage.py'';
          test_content = harness_header solution_dir solution_module func_name;
          test_content = add_test_functions 0 test_cases test_content
      in (test_file_path, test_content))"


section \<open>Result parser: \<open>_parse_test_results\<close>\<close>

text \<open>
  \<open>re.search(r'(\d+) word', output)\<close>. A match that starts at a given position takes the
  whole run of digits there (a shorter run is followed by a digit, never by the space), so
  the pattern matches at a position exactly when a non-empty digit run starts there and is
  followed by a space and the word. \<open>re.search\<close> returns the leftmost match; the result
  here is its group 1.
\<close>

definition match_count_at :: "string \<Rightarrow> string \<Rightarrow> string option" where
  "match_count_at word s =
     (let ds = takeWhile is_digit s; rest = dropWhile is_digit s
      in if ds \<noteq> [] \<and> startswith rest (CHR '' '' # word) then Some ds else None)"

fun re_search_count :: "string \<Rightarrow> string \<Rightarrow> string option" where
  "re_search_count word [] = None"
| "re_search_count word (c # cs) =
     (case match_count_at word (c # cs) of
        Some g \<Rightarrow> Some g
      | None \<Rightarrow> re_search_count word cs)"

text \<open>\<open>int(m.group(1)) if m else 0\<close>\<close>

definition count_of :: "string option \<Rightarrow> int" where
  "count_of m = (case m of Some g \<Rightarrow> int_of_digits g | None \<Rightarrow> 0)"

definition parse_test_results :: "string \<Rightarrow> int \<Rightarrow> int \<times> int" where
  "parse_test_results output n_tests =
     (let passed_match = re_search_count ''passed'' output;
          failed_match = re_search_count ''failed'' output;
          passed = count_of passed_match;
          failed = count_of failed_match
      in if passed = 0 \<and> failed = 0
         then (if contains ''passed'' (lower output) then (n_tests, failed) else (passed, n_tests))
         else (passed, failed))"


section \<open>Interpreter: \<open>_generate_interpretation\<close>\<close>

definition generate_interpretation ::
  "int \<Rightarrow> int \<Rightarrow> pyfloat \<Rightarrow> pyfloat option \<Rightarrow> string" where
  "generate_interpretation passed failed line_cov branch_cov =
     (if failed > 0 then str_int failed @ '' test(s) failed - fix failing tests first''
      else if float_lt line_cov 50 then ''Low line coverage - significant untested code paths''
      else if float_lt line_cov 80 then ''Moderate line coverage - some untested code paths''
      else if (case branch_cov of Some b \<Rightarrow> float_lt b 50 | None \<Rightarrow> False)
        then ''Low branch coverage - untested conditional logic and error paths''
      else if (case branch_cov of Some b \<Rightarrow> float_lt b 80 | None \<Rightarrow> False)
        then ''Moderate branch coverage - some conditional branches untested''
      else if float_ge line_cov 90 then
        (if truthy branch_cov \<and> (case branch_cov of Some b \<Rightarrow> float_ge b 90 | None \<Rightarrow> False)
           then ''Excellent coverage - well-tested code''
         else if truthy branch_cov then ''Good line coverage but some branches untested''
         else ''Good line coverage achieved'')
      else ''Adequate coverage'')"


section \<open>Pipeline orchestrator: \<open>analyze\<close>\<close>

text \<open>
  What the orchestrator cannot compute itself is given by a \<open>world\<close>: the paths on disk
  before the call, the name \<open>tempfile.mkdtemp\<close> returns, the outcome of reading and parsing
  the source file, what \<open>pathlib\<close> makes of the source path, whether writing the harness
  raises, how the external test run ends and what it leaves on disk, the tuple that
  \<open>_parse_coverage_json\<close> returns (it catches its own exceptions), whether copying the HTML
  report raises (caught by \<open>_save_html_report\<close>) and what the copy leaves on disk, the
  failure details \<open>_extract_errors\<close> scrapes from the output, and whether
  \<open>shutil.rmtree\<close> of the workspace raises.
\<close>

datatype run_outcome = Completed string string | TimeoutExpired | RunRaised string

datatype event = Mkdtemp path | WriteFile path string | RunPytest path | CopyReport path | Rmtree path

record world =
  disk :: "path set"
  mkdtemp_result :: path
  parsed_source :: "string + ast"
  solution_dir :: string
  solution_module :: string
  write_error :: "string option"
  pytest_outcome :: run_outcome
  disk_after_run :: "path set \<Rightarrow> path set"
  coverage_summary :: "pyfloat \<times> pyfloat \<times> pyfloat option \<times> int \<times> int"
  output_dir :: path
  copy_raises :: bool
  disk_after_copy :: "path set \<Rightarrow> path set"
  extract_errors :: "string \<Rightarrow> string list"
  rmtree_raises :: bool

text \<open>\<open>_save_html_report\<close>: the landing page of the copied report, or the empty string.\<close>

definition save_html_report :: "world \<Rightarrow> path \<Rightarrow> string \<Rightarrow> string" where
  "save_html_report w html_temp_dir pid =
     (let target_dir = path_join (output_dir w) pid
      in if copy_raises w then [] else path_join target_dir ''index.html'')"

text \<open>
  The record that the three early exits of \<open>analyze\<close> build; they differ in the
  interpretation and the error details only.
\<close>

definition early_exit_result :: "string \<Rightarrow> string list \<Rightarrow> string \<Rightarrow> string list \<Rightarrow> CoverageResult" where
  "early_exit_result pid test_cases interp details =
     \<lparr> problem_id = pid,
       tests_passed = 0,
       tests_failed = int (length test_cases),
       total_tests = int (length test_cases),
       line_coverage = Finite 0,
       statement_coverage = Finite 0,
       branch_coverage = None,
       statements_covered = 0,
       statements_total = 0,
       interpretation_msg = interp,
       error_details = details,
       html_report_path = [] \<rparr>"

text \<open>
  The \<open>try\<close> block of \<open>analyze\<close> with its two \<open>except\<close> clauses. It returns the result,
  the external actions taken, in order, and the paths on disk afterwards.
\<close>

definition analyze_try ::
  "world \<Rightarrow> path \<Rightarrow> string list \<Rightarrow> string \<Rightarrow> path \<Rightarrow> path set
     \<Rightarrow> CoverageResult \<times> event list \<times> path set" where
  "analyze_try w python_file test_cases pid temp_dir disk0 =
     (if python_file \<notin> disk0 then
        (early_exit_result pid test_cases ''Error: Python file not found''
           [''File not found: '' @ python_file], [], disk0)
      else
        let func_name = extract_function_name (parsed_source w);
            (test_file, test_content) =
              create_test_file (solution_dir w) (solution_module w) test_cases func_name temp_dir
        in case write_error w of
             Some msg \<Rightarrow>
               (early_exit_result pid test_cases (''Error: '' @ msg) [msg], [], disk0)
           | None \<Rightarrow>
               let disk1 = insert test_file disk0;
                   started = [WriteFile test_file test_content, RunPytest test_file]
               in case pytest_outcome w of
                    TimeoutExpired \<Rightarrow>
                      (early_exit_result pid test_cases
                         ''Timeout - execution exceeded 30 seconds'' [''Timeout''],
                       started, disk_after_run w disk1)
                  | RunRaised msg \<Rightarrow>
                      (early_exit_result pid test_cases (''Error: '' @ msg) [msg],
                       started, disk_after_run w disk1)
                  | Completed out err \<Rightarrow>
                      let disk2 = disk_after_run w disk1;
                          (passed, failed) =
                            parse_test_results (out @ err) (int (length test_cases));
                          (line_cov, statement_cov, branch_cov, stmts_covered, stmts_total) =
                            coverage_summary w;
                          html_temp_dir = path_join temp_dir ''htmlcov'';
                          report = (if html_temp_dir \<in> disk2
                                    then save_html_report w html_temp_dir pid else []);
                          copied = (if html_temp_dir \<in> disk2 then [CopyReport html_temp_dir] else []);
                          disk3 = (if html_temp_dir \<in> disk2 then disk_after_copy w disk2 else disk2);
                          interp = generate_interpretation passed failed line_cov branch_cov;
                          details = extract_errors w (out @ err)
                      in (\<lparr> problem_id = pid,
                             tests_passed = passed,
                             tests_failed = failed,
                             total_tests = int (length test_cases),
                             line_coverage = line_cov,
                             statement_coverage = statement_cov,
                             branch_coverage = branch_cov,
                             statements_covered = stmts_covered,
                             statements_total = stmts_total,
                             interpretation_msg = interp,
                             error_details = details,
                             html_report_path = report \<rparr>,
                          started @ copied, disk3))"

text \<open>A path is under a directory when it is the directory or lies below it.\<close>

definition under :: "path \<Rightarrow> path \<Rightarrow> bool" where
  "under dir p = (p = dir \<or> startswith p (dir @ ''/''))"

text \<open>
  \<open>analyze\<close>: create the workspace, run the \<open>try\<close> block, and in the \<open>finally\<close> clause
  remove the workspace; an exception of \<open>shutil.rmtree\<close> is swallowed and the tree stays.
\<close>

definition analyze ::
  "world \<Rightarrow> path \<Rightarrow> string list \<Rightarrow> string \<Rightarrow> CoverageResult \<times> event list \<times> path set" where
  "analyze w python_file test_cases pid =
     (let temp_dir = mkdtemp_result w;
          disk0 = insert temp_dir (disk w);
          (result, events, disk1) = analyze_try w python_file test_cases pid temp_dir disk0;
          disk2 = (if rmtree_raises w then disk1
                   else Set.filter (\<lambda>p. \<not> under temp_dir p) disk1)
      in (result, [Mkdtemp temp_dir] @ events @ [Rmtree temp_dir], disk2))"

text \<open>The exit paths of \<open>analyze\<close>, read off the world.\<close>

definition source_missing :: "world \<Rightarrow> path \<Rightarrow> bool" where
  "source_missing w python_file = (python_file \<notin> insert (mkdtemp_result w) (disk w))"

definition timed_out :: "world \<Rightarrow> path \<Rightarrow> bool" where
  "timed_out w python_file =
     (\<not> source_missing w python_file \<and> write_error w = None \<and> pytest_outcome w = TimeoutExpired)"

definition unexpected_failure :: "world \<Rightarrow> path \<Rightarrow> bool" where
  "unexpected_failure w python_file =
     (\<not> source_missing w python_file \<and>
      (write_error w \<noteq> None \<or> (case pytest_outcome w of RunRaised msg \<Rightarrow> True | _ \<Rightarrow> False)))"

definition completed_output :: "world \<Rightarrow> path \<Rightarrow> string option" where
  "completed_output w python_file =
     (if source_missing w python_file \<or> write_error w \<noteq> None then None
      else case pytest_outcome w of Completed out err \<Rightarrow> Some (out @ err) | _ \<Rightarrow> None)"

text \<open>
  A world for concrete runs: the source file \<open>/work/solution.py\<close> defines \<open>solve\<close>, the test
  run completes with two passing tests and writes its coverage files into the workspace, and
  every file operation succeeds.
\<close>

definition example_world :: world where
  "example_world =
     \<lparr> disk = {''/work/solution.py''},
       mkdtemp_result = ''/tmp/pytest_cov_a1'',
       parsed_source = Inr (Node Module [Node (FunctionDef ''solve'') []]),
       solution_dir = ''/work'',
       solution_module = ''solution'',
       write_error = None,
       pytest_outcome = Completed ''2 passed in 0.01s'' [],
       disk_after_run =
         (\<lambda>d. d \<union> {''/tmp/pytest_cov_a1/coverage.json'', ''/tmp/pytest_cov_a1/htmlcov''}),
       coverage_summary = (Finite 100, Finite 100, None, 3, 3),
       output_dir = ''coverage_reports'',
       copy_raises = False,
       disk_after_copy =
         (\<lambda>d. d \<union> {''coverage_reports/demo'', ''coverage_reports/demo/index.html''}),
       extract_errors = (\<lambda>out. []),
       rmtree_raises = False \<rparr>"






text \<open>
  Variants of the example world: one test passes and one is skipped; the output stops
  before the summary line; the test run times out; removing the workspace fails.
\<close>

definition skipped_world :: world where
  "skipped_world = example_world\<lparr>pytest_outcome := Completed ''1 passed, 1 skipped in 0.01s'' []\<rparr>"

definition crashed_world :: world where
  "crashed_world = example_world\<lparr>pytest_outcome := Completed ''test_case_0 PASSED'' []\<rparr>"

definition timeout_world :: world where
  "timeout_world = example_world\<lparr>pytest_outcome := TimeoutExpired\<rparr>"

definition locked_world :: world where
  "locked_world = example_world\<lparr>rmtree_raises := True\<rparr>"

section \<open>Strings and decimal numerals\<close>

lemma digit_val_digit_char: "d < 10 \<Longrightarrow> digit_val (digit_char d) = d"
proof -
  assume "d < 10"
  then have "d \<in> {0, 1, 2, 3, 4, 5, 6, 7, 8, 9}" by auto
  then show ?thesis
    by (auto simp: digit_val_def digit_char_def)
qed

lemma is_digit_digit_char: "d < 10 \<Longrightarrow> is_digit (digit_char d)"
proof -
  assume "d < 10"
  then have "d \<in> {0, 1, 2, 3, 4, 5, 6, 7, 8, 9}" by auto
  then show ?thesis
    by (auto simp: is_digit_def digit_char_def)
qed

lemma int_of_digits_snoc:
  "int_of_digits (ds @ [c]) = 10 * int_of_digits ds + int (digit_val c)"
  by (simp add: int_of_digits_def)

text \<open>Reading back the decimal text of a number gives the number.\<close>

lemma int_of_digits_str_nat: "int_of_digits (str_nat n) = int n"
proof (induction n rule: str_nat.induct)
  case (1 n)
  show ?case
  proof (cases "n < 10")
    case True
    then show ?thesis
      by (subst str_nat.simps) (simp add: int_of_digits_def digit_val_digit_char)
  next
    case False
    with 1 have "int_of_digits (str_nat (n div 10)) = int (n div 10)" by simp
    moreover have "int n = 10 * int (n div 10) + int (n mod 10)"
      by presburger
    ultimately show ?thesis using False
      by (subst str_nat.simps) (simp add: int_of_digits_snoc digit_val_digit_char)
  qed
qed

lemma str_nat_inj: "str_nat a = str_nat b \<Longrightarrow> a = b"
  by (metis int_of_digits_str_nat of_nat_eq_iff)

lemma str_nat_digits: "list_all is_digit (str_nat n) \<and> str_nat n \<noteq> []"
proof (induction n rule: str_nat.induct)
  case (1 n)
  show ?case
  proof (cases "n < 10")
    case True
    then show ?thesis
      by (subst (1 2) str_nat.simps) (simp add: is_digit_digit_char)
  next
    case False
    with 1 have "list_all is_digit (str_nat (n div 10))" by simp
    with False show ?thesis
      by (subst (1 2) str_nat.simps) (simp add: is_digit_digit_char)
  qed
qed

lemma str_int_pos_head: "0 < i \<Longrightarrow> \<exists>c cs. str_int i = c # cs \<and> is_digit c"
proof -
  assume "0 < i"
  then have eq: "str_int i = str_nat (nat i)" by (simp add: str_int_def)
  obtain c cs where "str_nat (nat i) = c # cs"
    using str_nat_digits[of "nat i"] by (cases "str_nat (nat i)") auto
  moreover from this have "is_digit c"
    using str_nat_digits[of "nat i"] by simp
  ultimately show ?thesis using eq by simp
qed

lemma contains_append_left: "contains sub t \<Longrightarrow> contains sub (s @ t)"
  by (induction s) auto

lemma contains_startswith: "startswith s sub \<Longrightarrow> contains sub s"
  by (cases s) (auto simp: startswith_def)

lemma contains_mid: "contains sub (pre @ sub @ post)"
  by (rule contains_append_left) (simp add: contains_startswith startswith_def)

lemma lower_append: "lower (s @ t) = lower s @ lower t"
  by (simp add: lower_def)

lemma lower_passed: "lower '' passed'' = '' passed''"
  by code_simp


section \<open>The count patterns\<close>

lemma match_count_at_shape:
  assumes "match_count_at word s = Some g"
  shows "\<exists>post. s = g @ CHR '' '' # word @ post"
proof -
  from assms have g: "g = takeWhile is_digit s"
    and sw: "startswith (dropWhile is_digit s) (CHR '' '' # word)"
    by (auto simp: match_count_at_def Let_def split: if_splits)
  from sw have "dropWhile is_digit s =
      (CHR '' '' # word) @ drop (length (CHR '' '' # word)) (dropWhile is_digit s)"
    unfolding startswith_def by (metis append_take_drop_id)
  then have "s = g @ (CHR '' '' # word) @
      drop (length (CHR '' '' # word)) (dropWhile is_digit s)"
    using g by (metis takeWhile_dropWhile_id)
  then show ?thesis by auto
qed

text \<open>A match of the count pattern lies in the text: digits, a space, the word.\<close>

lemma re_search_count_shape:
  "re_search_count word s = Some g \<Longrightarrow> \<exists>pre post. s = pre @ g @ CHR '' '' # word @ post"
proof (induction s)
  case Nil
  then show ?case by simp
next
  case (Cons c cs)
  show ?case
  proof (cases "match_count_at word (c # cs)")
    case (Some g')
    with Cons.prems have "g' = g" by simp
    with Some match_count_at_shape[of word "c # cs" g] show ?thesis
      by (metis append_Nil)
  next
    case None
    with Cons.prems have "re_search_count word cs = Some g" by simp
    from Cons.IH[OF this] obtain pre post where "cs = pre @ g @ CHR '' '' # word @ post"
      by blast
    then have "c # cs = (c # pre) @ g @ CHR '' '' # word @ post" by simp
    then show ?thesis by blast
  qed
qed

lemma re_search_passed_contains:
  assumes "re_search_count ''passed'' out = Some g"
  shows "contains ''passed'' (lower out)"
proof -
  from re_search_count_shape[OF assms] obtain pre post
    where "out = pre @ g @ CHR '' '' # ''passed'' @ post" by blast
  then have "out = (pre @ g) @ '' passed'' @ post" by simp
  then have "lower out = (lower (pre @ g) @ '' '') @ ''passed'' @ lower post"
    using lower_passed by (simp add: lower_append del: append_assoc) (simp add: lower_def)
  then show ?thesis using contains_mid by metis
qed

lemma parse_fallback_sum:
  assumes "count_of (re_search_count ''passed'' out) = 0"
      and "count_of (re_search_count ''failed'' out) = 0"
  shows "fst (parse_test_results out n) + snd (parse_test_results out n) = n"
  using assms by (simp add: parse_test_results_def Let_def)

lemma parse_both_zero:
  assumes "parse_test_results out n = (0, 0)"
  shows "n = 0"
  using assms by (auto simp add: parse_test_results_def Let_def split: if_splits)


section \<open>The walk over the syntax tree\<close>















section \<open>The harness text\<close>

lemma test_names_distinct:
  "distinct (map (\<lambda>i. ''test_case_'' @ str_nat i) [0..<n])"
  by (simp add: distinct_map inj_on_def) (meson str_nat_inj)

lemma add_test_functions_enumerate:
  "add_test_functions i tcs content =
     content @ concat (map (\<lambda>(j, tc). test_function j tc) (enumerate i tcs))"
  by (induction tcs arbitrary: i content) simp_all

lemma enumerate_map_upt:
  "map (\<lambda>(j, tc). f j tc) (enumerate 0 tcs) = map (\<lambda>i. f i (tcs ! i)) [0..<length tcs]"
  by (rule nth_equalityI) (simp_all add: nth_enumerate_eq)


section \<open>The exit paths of the orchestrator\<close>

lemma paths_exhaustive:
  "source_missing w f \<or> timed_out w f \<or> unexpected_failure w f \<or>
   (\<exists>out. completed_output w f = Some out)"
  by (auto simp: timed_out_def unexpected_failure_def completed_output_def
      split: run_outcome.splits)

lemma analyze_source_missing:
  assumes "source_missing w f"
  shows "analyze w f tcs pid =
           (early_exit_result pid tcs ''Error: Python file not found''
              [''File not found: '' @ f],
            [Mkdtemp (mkdtemp_result w), Rmtree (mkdtemp_result w)],
            if rmtree_raises w then insert (mkdtemp_result w) (disk w)
            else Set.filter (\<lambda>p. \<not> under (mkdtemp_result w) p)
                   (insert (mkdtemp_result w) (disk w)))"
  using assms by (simp add: analyze_def analyze_try_def source_missing_def Let_def)

lemma analyze_timed_out:
  assumes "timed_out w f"
  shows "fst (analyze w f tcs pid) =
           early_exit_result pid tcs ''Timeout - execution exceeded 30 seconds'' [''Timeout'']"
  using assms
  by (auto simp add: analyze_def analyze_try_def timed_out_def source_missing_def Let_def
      split: prod.splits)

lemma analyze_unexpected_failure:
  assumes "unexpected_failure w f"
  shows "\<exists>msg. fst (analyze w f tcs pid) = early_exit_result pid tcs (''Error: '' @ msg) [msg]"
  using assms
  by (auto simp add: analyze_def analyze_try_def unexpected_failure_def source_missing_def
      Let_def split: prod.splits option.splits run_outcome.splits)

lemma analyze_completed:
  assumes "completed_output w f = Some out"
  shows "tests_passed (fst (analyze w f tcs pid)) =
           fst (parse_test_results out (int (length tcs)))"
    and "tests_failed (fst (analyze w f tcs pid)) =
           snd (parse_test_results out (int (length tcs)))"
    and "total_tests (fst (analyze w f tcs pid)) = int (length tcs)"
    and "interpretation_msg (fst (analyze w f tcs pid)) =
           generate_interpretation (fst (parse_test_results out (int (length tcs))))
             (snd (parse_test_results out (int (length tcs))))
             (fst (coverage_summary w)) (fst (snd (snd (coverage_summary w))))"
  using assms
  by (auto simp add: analyze_def analyze_try_def completed_output_def source_missing_def Let_def
      split: prod.splits option.splits run_outcome.splits if_splits)

lemma analyze_try_no_rmtree:
  "Rmtree p \<notin> set (fst (snd (analyze_try w f tcs pid tmp d0)))"
  by (auto simp add: analyze_try_def Let_def
      split: prod.splits option.splits run_outcome.splits if_splits)

lemma analyze_events:
  "\<exists>evs. fst (snd (analyze w f tcs pid)) =
           Mkdtemp (mkdtemp_result w) # evs @ [Rmtree (mkdtemp_result w)]
     \<and> (\<forall>p. Rmtree p \<notin> set evs)"
proof -
  let ?t = "analyze_try w f tcs pid (mkdtemp_result w) (insert (mkdtemp_result w) (disk w))"
  have "fst (snd (analyze w f tcs pid)) =
          Mkdtemp (mkdtemp_result w) # fst (snd ?t) @ [Rmtree (mkdtemp_result w)]"
    by (simp add: analyze_def Let_def split: prod.splits)
  then show ?thesis using analyze_try_no_rmtree by blast
qed

lemma analyze_disk_removed:
  "\<not> rmtree_raises w \<Longrightarrow> mkdtemp_result w \<notin> snd (snd (analyze w f tcs pid))"
  by (simp add: analyze_def Let_def under_def split: prod.splits)

lemma analyze_result_indep_rmtree:
  "fst (analyze (w\<lparr>rmtree_raises := b\<rparr>) f tcs pid) = fst (analyze w f tcs pid)"
proof -
  have "analyze_try (w\<lparr>rmtree_raises := b\<rparr>) f tcs pid tmp d0 = analyze_try w f tcs pid tmp d0"
    for tmp d0
    by (simp add: analyze_try_def save_html_report_def Let_def
        cong: option.case_cong run_outcome.case_cong if_cong)
  then show ?thesis
    by (simp add: analyze_def Let_def split: prod.splits)
qed

lemma generate_interpretation_not_timeout:
  "generate_interpretation p f l b \<noteq> ''Timeout - execution exceeded 30 seconds''"
proof (cases "0 < f")
  case True
  then obtain c cs where "str_int f = c # cs" and "is_digit c"
    using str_int_pos_head by blast
  with True show ?thesis
    by (auto simp add: generate_interpretation_def is_digit_def)
next
  case False
  then show ?thesis by (simp add: generate_interpretation_def)
qed

lemma timeout_message_only_on_timeout:
  assumes "\<not> timed_out w f"
  shows "interpretation_msg (fst (analyze w f tcs pid)) \<noteq>
           ''Timeout - execution exceeded 30 seconds''"
proof -
  consider "source_missing w f" | "unexpected_failure w f"
    | out where "completed_output w f = Some out"
    using paths_exhaustive assms by blast
  then show ?thesis
  proof cases
    case 1
    then show ?thesis by (simp add: analyze_source_missing early_exit_result_def)
  next
    case 2
    then obtain msg where
      "fst (analyze w f tcs pid) = early_exit_result pid tcs (''Error: '' @ msg) [msg]"
      using analyze_unexpected_failure by blast
    then show ?thesis by (simp add: early_exit_result_def)
  next
    case 3
    then show ?thesis
      by (simp add: analyze_completed(4) generate_interpretation_not_timeout)
  qed
qed

section \<open>Claims about the interpreter\<close>

text \<open>
  Claim C5. Whenever \<open>failed > 0\<close>, the interpretation is the message
  "N test(s) failed - fix failing tests first" with N the failed count, whatever the passed
  count, the line coverage and the branch coverage are (finite, infinite, NaN or absent): the
  failure check comes before every coverage check.
\<close>

theorem failed_tests_message_first:
  "failed > 0 \<Longrightarrow>
     generate_interpretation passed failed line_cov branch_cov =
       str_int failed @ '' test(s) failed - fix failing tests first''"
  by (simp add: generate_interpretation_def)

theorem failed_tests_message_first_witness:
  "(2::int) > 0 \<and>
   generate_interpretation 0 2 (Finite 95) (Some (Finite 95)) =
     ''2 test(s) failed - fix failing tests first''"
  using failed_tests_message_first [of 2 0 "Finite 95" "Some (Finite 95)"]
  by (simp add: str_int_def str_nat.simps digit_char_def)

text \<open>
  Claim C6, as stated: with no failed test, line coverage 85 and no branch data the
  interpretation is "Good line coverage achieved". The code gives that message from line
  coverage 90 on; at 85 the ladder falls through to the generic message.
\<close>

theorem line_85_no_branch_counterexample:
  "generate_interpretation 0 0 (Finite 85) None \<noteq> ''Good line coverage achieved''"
  by (simp add: generate_interpretation_def)

text \<open>
  Claim C6, amended. With no failed test, line coverage 85 and no branch data the
  interpretation is "Adequate coverage"; with no failed test and no branch data, a finite
  line coverage gives "Good line coverage achieved" exactly when it is at least 90.
\<close>

theorem line_85_no_branch_adequate:
  "generate_interpretation passed 0 (Finite 85) None = ''Adequate coverage'' \<and>
   (generate_interpretation passed 0 (Finite x) None = ''Good line coverage achieved'')
     = (90 \<le> x)"
  by (simp add: generate_interpretation_def)


section \<open>Claims about the result parser\<close>

text \<open>
  Claim C8. For every captured output and every requested test count: when the pass count
  and the fail count both come back zero (the pattern is absent, or its number is 0), the
  parser returns all-passed, \<open>(n, 0)\<close>, if the lower-cased text contains "passed", and
  all-failed, \<open>(0, n)\<close>, otherwise.
\<close>

theorem parse_fallback:
  assumes "count_of (re_search_count ''passed'' output) = 0"
      and "count_of (re_search_count ''failed'' output) = 0"
  shows "parse_test_results output n =
           (if contains ''passed'' (lower output) then (n, 0) else (0, n))"
  using assms by (simp add: parse_test_results_def Let_def)

theorem parse_fallback_witness:
  "count_of (re_search_count ''passed'' ''test_case_0 PASSED'') = 0 \<and>
   count_of (re_search_count ''failed'' ''test_case_0 PASSED'') = 0 \<and>
   parse_test_results ''test_case_0 PASSED'' 3 = (3, 0) \<and>
   count_of (re_search_count ''passed'' ''1 error in 0.05s'') = 0 \<and>
   count_of (re_search_count ''failed'' ''1 error in 0.05s'') = 0 \<and>
   parse_test_results ''1 error in 0.05s'' 3 = (0, 3)"
proof -
  have p1: "count_of (re_search_count ''passed'' ''test_case_0 PASSED'') = 0" by code_simp
  have f1: "count_of (re_search_count ''failed'' ''test_case_0 PASSED'') = 0" by code_simp
  have c1: "contains ''passed'' (lower ''test_case_0 PASSED'')" by code_simp
  have p2: "count_of (re_search_count ''passed'' ''1 error in 0.05s'') = 0" by code_simp
  have f2: "count_of (re_search_count ''failed'' ''1 error in 0.05s'') = 0" by code_simp
  have c2: "\<not> contains ''passed'' (lower ''1 error in 0.05s'')" by code_simp
  show ?thesis
    using parse_fallback [OF p1 f1, of 3] parse_fallback [OF p2 f2, of 3] p1 f1 p2 f2 c1 c2
    by simp
qed

text \<open>
  Claim C10, as stated: for a positive test count, an output that contains the count pattern
  "0 passed" and no integer before " failed" parses to \<open>(total, 0)\<close>. The search returns the
  leftmost match of the pass pattern only: in "2 passed, 0 passed" that is the count 2, so
  with 5 tests requested the parser returns \<open>(2, 0)\<close>, not \<open>(5, 0)\<close>.
\<close>

theorem zero_passed_counterexample:
  "(5::int) > 0 \<and> contains ''0 passed'' ''2 passed, 0 passed'' \<and>
   re_search_count ''failed'' ''2 passed, 0 passed'' = None \<and>
   parse_test_results ''2 passed, 0 passed'' 5 = (2, 0) \<and>
   parse_test_results ''2 passed, 0 passed'' 5 \<noteq> (5, 0)"
  by code_simp

text \<open>
  Claim C10, amended. If the leftmost match of the pass pattern in the output has the
  count 0 and the fail pattern does not match, the parser returns \<open>(total, 0)\<close>: the
  all-passed fallback overrides the explicitly reported zero, since the matched text itself
  contains "passed".
\<close>

theorem zero_passed_first_match:
  assumes "re_search_count ''passed'' output = Some g" and "int_of_digits g = 0"
      and "re_search_count ''failed'' output = None"
  shows "parse_test_results output n = (n, 0)"
  using assms re_search_passed_contains [OF assms(1)]
  by (simp add: parse_test_results_def Let_def count_of_def)

theorem zero_passed_first_match_witness:
  "re_search_count ''passed'' ''0 passed in 0.01s'' = Some ''0'' \<and> int_of_digits ''0'' = 0 \<and>
   re_search_count ''failed'' ''0 passed in 0.01s'' = None \<and>
   parse_test_results ''0 passed in 0.01s'' 4 = (4, 0)"
proof -
  have m: "re_search_count ''passed'' ''0 passed in 0.01s'' = Some ''0''" by code_simp
  have z: "int_of_digits ''0'' = 0" by code_simp
  have f: "re_search_count ''failed'' ''0 passed in 0.01s'' = None" by code_simp
  show ?thesis using zero_passed_first_match [OF m z f, of 4] m z f by simp
qed


section \<open>Claims about the orchestrator\<close>

text \<open>
  Claim C2. For every list of test cases: if the source path does not exist when \<open>analyze\<close>
  checks it, the result has \<open>total_tests = len(test_cases)\<close>, \<open>tests_failed = total_tests\<close>,
  \<open>tests_passed = 0\<close> and the non-empty interpretation "Error: Python file not found"; the
  only external actions are creating and removing the workspace, so no harness is written
  and no test run is started.
\<close>

theorem analyze_missing_source:
  assumes "source_missing w python_file"
  shows "total_tests (fst (analyze w python_file test_cases pid)) = int (length test_cases)
       \<and> tests_failed (fst (analyze w python_file test_cases pid)) =
           total_tests (fst (analyze w python_file test_cases pid))
       \<and> tests_passed (fst (analyze w python_file test_cases pid)) = 0
       \<and> interpretation_msg (fst (analyze w python_file test_cases pid)) =
           ''Error: Python file not found''
       \<and> interpretation_msg (fst (analyze w python_file test_cases pid)) \<noteq> []
       \<and> fst (snd (analyze w python_file test_cases pid)) =
           [Mkdtemp (mkdtemp_result w), Rmtree (mkdtemp_result w)]
       \<and> (\<forall>p c. WriteFile p c \<notin> set (fst (snd (analyze w python_file test_cases pid))))
       \<and> (\<forall>p. RunPytest p \<notin> set (fst (snd (analyze w python_file test_cases pid))))"
  using assms by (simp add: analyze_source_missing early_exit_result_def)

theorem analyze_missing_source_witness:
  "source_missing example_world ''/work/missing.py''
   \<and> total_tests (fst (analyze example_world ''/work/missing.py''
        [''solve(1) == 1'', ''solve(2) == 4''] ''demo'')) = 2
   \<and> tests_failed (fst (analyze example_world ''/work/missing.py''
        [''solve(1) == 1'', ''solve(2) == 4''] ''demo'')) = 2
   \<and> tests_passed (fst (analyze example_world ''/work/missing.py''
        [''solve(1) == 1'', ''solve(2) == 4''] ''demo'')) = 0
   \<and> fst (snd (analyze example_world ''/work/missing.py''
        [''solve(1) == 1'', ''solve(2) == 4''] ''demo'')) =
        [Mkdtemp ''/tmp/pytest_cov_a1'', Rmtree ''/tmp/pytest_cov_a1'']"
proof -
  have m: "source_missing example_world ''/work/missing.py''"
    by (simp add: source_missing_def example_world_def)
  have t: "mkdtemp_result example_world = ''/tmp/pytest_cov_a1''"
    by (simp add: example_world_def)
  show ?thesis
    using analyze_missing_source [OF m, of "[''solve(1) == 1'', ''solve(2) == 4'']" "''demo''"] m t
    by simp
qed

section \<open>Claims about the harness generator\<close>

text \<open>
  Claim C4. For every list of N assertion strings the generated text is the header followed
  by exactly N test units, in input order; unit number \<open>i\<close> (counted from 0) is the function
  \<open>test_case_i\<close> whose body is the docstring and one assertion line: the stripped input as it
  is when it begins with \<open>assert\<close>, and \<open>assert\<close> and a space before it otherwise. The N
  function names are pairwise distinct.
\<close>

theorem harness_test_units:
  "snd (create_test_file sol_dir sol_module test_cases func_name temp_dir) =
     harness_header sol_dir sol_module func_name @
     concat (map (\<lambda>i.
        ''def test_case_'' @ str_nat i @ ''():\<newline>'' @
        ''    '' @ [CHR 0x22, CHR 0x22, CHR 0x22] @ ''Test case '' @ str_nat (i + 1) @
          [CHR 0x22, CHR 0x22, CHR 0x22] @ ''\<newline>'' @
        ''    '' @ (if startswith (strip (test_cases ! i)) ''assert''
                    then strip (test_cases ! i)
                    else ''assert '' @ strip (test_cases ! i)) @ ''\<newline>'' @
        ''\<newline>'') [0..<length test_cases])
   \<and> distinct (map (\<lambda>i. ''test_case_'' @ str_nat i) [0..<length test_cases])"
proof -
  have unit_text: "test_function i tc =
        ''def test_case_'' @ str_nat i @ ''():\<newline>'' @
        ''    '' @ [CHR 0x22, CHR 0x22, CHR 0x22] @ ''Test case '' @ str_nat (i + 1) @
          [CHR 0x22, CHR 0x22, CHR 0x22] @ ''\<newline>'' @
        ''    '' @ (if startswith (strip tc) ''assert''
                    then strip tc
                    else ''assert '' @ strip tc) @ ''\<newline>'' @
        ''\<newline>''" for i tc
    by (simp add: test_function_def Let_def)
  have "snd (create_test_file sol_dir sol_module test_cases func_name temp_dir) =
          harness_header sol_dir sol_module func_name @
          concat (map (\<lambda>(j, tc). test_function j tc) (enumerate 0 test_cases))"
    by (simp add: create_test_file_def Let_def add_test_functions_enumerate)
  also have "map (\<lambda>(j, tc). test_function j tc) (enumerate 0 test_cases) =
          map (\<lambda>i. test_function i (test_cases ! i)) [0..<length test_cases]"
    by (rule enumerate_map_upt)
  finally have "snd (create_test_file sol_dir sol_module test_cases func_name temp_dir) =
          harness_header sol_dir sol_module func_name @
          concat (map (\<lambda>i. test_function i (test_cases ! i)) [0..<length test_cases])" .
  then show ?thesis
    unfolding unit_text using test_names_distinct [of "length test_cases"] by (rule conjI)
qed

theorem harness_test_units_witness:
  "snd (create_test_file ''/work'' ''solution'' [''  solve(1) == 2 '', ''assert solve(2) == 3'']
          ''solve'' ''/tmp/pytest_cov_a1'') =
     harness_header ''/work'' ''solution'' ''solve'' @
     ''def test_case_0():\<newline>'' @
     ''    '' @ [CHR 0x22, CHR 0x22, CHR 0x22] @ ''Test case 1'' @ [CHR 0x22, CHR 0x22, CHR 0x22] @ ''\<newline>'' @
     ''    assert solve(1) == 2\<newline>'' @
     ''\<newline>'' @
     ''def test_case_1():\<newline>'' @
     ''    '' @ [CHR 0x22, CHR 0x22, CHR 0x22] @ ''Test case 2'' @ [CHR 0x22, CHR 0x22, CHR 0x22] @ ''\<newline>'' @
     ''    assert solve(2) == 3\<newline>'' @
     ''\<newline>''"
proof -
  have s0: "strip ''  solve(1) == 2 '' = ''solve(1) == 2''" by code_simp
  have s1: "strip ''assert solve(2) == 3'' = ''assert solve(2) == 3''" by code_simp
  have n0: "str_nat 0 = ''0''" by code_simp
  have n1: "str_nat 1 = ''1''" "str_nat (Suc 0) = ''1''" by code_simp+
  have n2: "str_nat 2 = ''2''" "str_nat (Suc (Suc 0)) = ''2''" by code_simp+
  have u: "[0..<2] = [0, 1]" by (simp add: upt_rec)
  show ?thesis
    using harness_test_units [of "''/work''" "''solution''"
        "[''  solve(1) == 2 '', ''assert solve(2) == 3'']" "''solve''" "''/tmp/pytest_cov_a1''"]
    by (simp add: s0 s1 n0 n1 n2 u startswith_def)
qed


section \<open>Claims about the target inspector\<close>





section \<open>Counts, events and the disk on every exit path\<close>

lemma analyze_total_tests:
  "total_tests (fst (analyze w f tcs pid)) = int (length tcs)"
proof -
  consider "source_missing w f" | "timed_out w f" | "unexpected_failure w f"
    | out where "completed_output w f = Some out"
    using paths_exhaustive by blast
  then show ?thesis
  proof cases
    case 1
    then show ?thesis by (simp add: analyze_source_missing early_exit_result_def)
  next
    case 2
    then show ?thesis by (simp add: analyze_timed_out early_exit_result_def)
  next
    case 3
    then obtain msg where
      "fst (analyze w f tcs pid) = early_exit_result pid tcs (''Error: '' @ msg) [msg]"
      using analyze_unexpected_failure by blast
    then show ?thesis by (simp add: early_exit_result_def)
  next
    case 4
    then show ?thesis by (rule analyze_completed(3))
  qed
qed

lemma analyze_early_exit_counts:
  assumes "source_missing w f \<or> timed_out w f \<or> unexpected_failure w f"
  shows "tests_passed (fst (analyze w f tcs pid)) = 0 \<and>
         tests_failed (fst (analyze w f tcs pid)) = int (length tcs)"
proof -
  consider "source_missing w f" | "timed_out w f" | "unexpected_failure w f"
    using assms by blast
  then show ?thesis
  proof cases
    case 1
    then show ?thesis by (simp add: analyze_source_missing early_exit_result_def)
  next
    case 2
    then show ?thesis by (simp add: analyze_timed_out early_exit_result_def)
  next
    case 3
    then obtain msg where
      "fst (analyze w f tcs pid) = early_exit_result pid tcs (''Error: '' @ msg) [msg]"
      using analyze_unexpected_failure by blast
    then show ?thesis by (simp add: early_exit_result_def)
  qed
qed

lemma analyze_both_zero:
  assumes "tests_passed (fst (analyze w f tcs pid)) = 0"
      and "tests_failed (fst (analyze w f tcs pid)) = 0"
  shows "tcs = []"
proof -
  consider "source_missing w f \<or> timed_out w f \<or> unexpected_failure w f"
    | out where "completed_output w f = Some out"
    using paths_exhaustive by blast
  then show ?thesis
  proof cases
    case 1
    then show ?thesis using analyze_early_exit_counts [OF 1, of tcs pid] assms by simp
  next
    case 2
    have "parse_test_results out (int (length tcs)) = (0, 0)"
      using analyze_completed(1,2) [OF 2, of tcs pid] assms by (simp add: prod_eq_iff)
    then have "int (length tcs) = 0" by (rule parse_both_zero)
    then show ?thesis by simp
  qed
qed

lemma analyze_disk_kept:
  assumes "rmtree_raises w" and "completed_output w f = Some out"
  shows "snd (snd (analyze w f tcs pid)) =
           (let disk2 = disk_after_run w
                  (insert (path_join (mkdtemp_result w) ''test_coverage.py'')
                     (insert (mkdtemp_result w) (disk w)))
            in if path_join (mkdtemp_result w) ''htmlcov'' \<in> disk2
               then disk_after_copy w disk2 else disk2)"
  using assms
  by (auto simp add: analyze_def analyze_try_def completed_output_def source_missing_def Let_def
      create_test_file_def split: prod.splits option.splits run_outcome.splits if_splits)

lemma analyze_timed_out_events:
  assumes "timed_out w f"
  shows "CopyReport p \<notin> set (fst (snd (analyze w f tcs pid)))"
  using assms
  by (auto simp add: analyze_def analyze_try_def timed_out_def source_missing_def Let_def
      split: prod.splits)


section \<open>Claims about counts, timeout and cleanup\<close>

text \<open>
  Claim C1, as stated: whenever the run completed, \<open>tests_passed + tests_failed\<close> equals
  \<open>total_tests\<close>, and both counts are zero only in the three early exits. The code reports
  the numbers it reads from the output as they are: a completed run of two tests of which
  one passes and one is skipped gives 1 passed and 0 failed of 2.
\<close>

theorem counts_sum_counterexample:
  "completed_output skipped_world ''/work/solution.py'' = Some ''1 passed, 1 skipped in 0.01s''
   \<and> total_tests (fst (analyze skipped_world ''/work/solution.py''
         [''solve(1) == 1'', ''pytest.skip()''] ''demo'')) = 2
   \<and> tests_passed (fst (analyze skipped_world ''/work/solution.py''
         [''solve(1) == 1'', ''pytest.skip()''] ''demo'')) = 1
   \<and> tests_failed (fst (analyze skipped_world ''/work/solution.py''
         [''solve(1) == 1'', ''pytest.skip()''] ''demo'')) = 0"
proof -
  have c: "completed_output skipped_world ''/work/solution.py'' =
             Some ''1 passed, 1 skipped in 0.01s''"
    by (simp add: completed_output_def source_missing_def skipped_world_def example_world_def)
  have p: "parse_test_results ''1 passed, 1 skipped in 0.01s'' 2 = (1, 0)" by code_simp
  show ?thesis
    using analyze_completed(1,2,3) [OF c, of "[''solve(1) == 1'', ''pytest.skip()'']" "''demo''"] c p
    by simp
qed

text \<open>
  Claim C1, amended. On every path \<open>total_tests = len(test_cases)\<close>. In the three early
  exits \<open>tests_passed = 0\<close> and \<open>tests_failed = total_tests\<close>. After a completed run the two
  counts are what the parser reads from the output; their sum is \<open>total_tests\<close> whenever both
  count patterns come back zero (the fallback), and is not constrained otherwise. On every
  path, both counts are zero only when the list of test cases is empty.
\<close>

theorem analyze_counts:
  "total_tests (fst (analyze w python_file test_cases pid)) = int (length test_cases)
   \<and> (source_missing w python_file \<or> timed_out w python_file \<or>
        unexpected_failure w python_file \<longrightarrow>
        tests_passed (fst (analyze w python_file test_cases pid)) = 0 \<and>
        tests_failed (fst (analyze w python_file test_cases pid)) =
          total_tests (fst (analyze w python_file test_cases pid)))
   \<and> (\<forall>out. completed_output w python_file = Some out \<longrightarrow>
        tests_passed (fst (analyze w python_file test_cases pid)) =
          fst (parse_test_results out (int (length test_cases))) \<and>
        tests_failed (fst (analyze w python_file test_cases pid)) =
          snd (parse_test_results out (int (length test_cases))) \<and>
        (count_of (re_search_count ''passed'' out) = 0 \<and>
         count_of (re_search_count ''failed'' out) = 0 \<longrightarrow>
           tests_passed (fst (analyze w python_file test_cases pid)) +
           tests_failed (fst (analyze w python_file test_cases pid)) =
             total_tests (fst (analyze w python_file test_cases pid))))
   \<and> (tests_passed (fst (analyze w python_file test_cases pid)) = 0 \<and>
      tests_failed (fst (analyze w python_file test_cases pid)) = 0 \<longrightarrow> test_cases = [])"
  using analyze_total_tests [of w python_file test_cases pid]
    analyze_early_exit_counts [of w python_file test_cases pid]
    analyze_completed(1,2) [of w python_file _ test_cases pid]
    parse_fallback_sum [of _ "int (length test_cases)"]
    analyze_both_zero [of w python_file test_cases pid]
  by auto

theorem analyze_counts_witness:
  "completed_output example_world ''/work/solution.py'' = Some ''2 passed in 0.01s''
   \<and> tests_passed (fst (analyze example_world ''/work/solution.py''
         [''solve(1) == 1'', ''solve(2) == 4''] ''demo'')) = 2
   \<and> tests_failed (fst (analyze example_world ''/work/solution.py''
         [''solve(1) == 1'', ''solve(2) == 4''] ''demo'')) = 0
   \<and> completed_output crashed_world ''/work/solution.py'' = Some ''test_case_0 PASSED''
   \<and> count_of (re_search_count ''passed'' ''test_case_0 PASSED'') = 0
   \<and> count_of (re_search_count ''failed'' ''test_case_0 PASSED'') = 0
   \<and> tests_passed (fst (analyze crashed_world ''/work/solution.py'' [''solve(1) == 1''] ''demo'')) +
     tests_failed (fst (analyze crashed_world ''/work/solution.py'' [''solve(1) == 1''] ''demo'')) = 1
   \<and> timed_out timeout_world ''/work/solution.py''
   \<and> tests_passed (fst (analyze timeout_world ''/work/solution.py'' [''solve(1) == 1''] ''demo'')) = 0
   \<and> tests_failed (fst (analyze timeout_world ''/work/solution.py'' [''solve(1) == 1''] ''demo'')) = 1
   \<and> tests_passed (fst (analyze timeout_world ''/work/solution.py'' [] ''demo'')) = 0
   \<and> tests_failed (fst (analyze timeout_world ''/work/solution.py'' [] ''demo'')) = 0"
proof -
  have c1: "completed_output example_world ''/work/solution.py'' = Some ''2 passed in 0.01s''"
    by (simp add: completed_output_def source_missing_def example_world_def)
  have p1: "parse_test_results ''2 passed in 0.01s'' 2 = (2, 0)" by code_simp
  have c2: "completed_output crashed_world ''/work/solution.py'' = Some ''test_case_0 PASSED''"
    by (simp add: completed_output_def source_missing_def crashed_world_def example_world_def)
  have z1: "count_of (re_search_count ''passed'' ''test_case_0 PASSED'') = 0" by code_simp
  have z2: "count_of (re_search_count ''failed'' ''test_case_0 PASSED'') = 0" by code_simp
  have t: "timed_out timeout_world ''/work/solution.py''"
    by (simp add: timed_out_def source_missing_def timeout_world_def example_world_def)
  show ?thesis
    using analyze_counts [of example_world "''/work/solution.py''"
        "[''solve(1) == 1'', ''solve(2) == 4'']" "''demo''"]
      analyze_counts [of crashed_world "''/work/solution.py''" "[''solve(1) == 1'']" "''demo''"]
      analyze_counts [of timeout_world "''/work/solution.py''" "[''solve(1) == 1'']" "''demo''"]
      analyze_counts [of timeout_world "''/work/solution.py''" "[]" "''demo''"]
      c1 p1 c2 z1 z2 t
    by simp
qed

text \<open>
  Claim C3, as stated: on a timeout all coverage and pass/fail counters of the result are
  zero. The code sets \<open>tests_failed\<close> to the number of test cases: with one test case it is 1.
\<close>

theorem timeout_counters_counterexample:
  "timed_out timeout_world ''/work/solution.py'' \<and>
   tests_failed (fst (analyze timeout_world ''/work/solution.py'' [''solve(1) == 1''] ''demo'')) = 1 \<and>
   tests_failed (fst (analyze timeout_world ''/work/solution.py'' [''solve(1) == 1''] ''demo'')) \<noteq> 0"
proof -
  have t: "timed_out timeout_world ''/work/solution.py''"
    by (simp add: timed_out_def source_missing_def timeout_world_def example_world_def)
  show ?thesis
    using analyze_timed_out [OF t, of "[''solve(1) == 1'']" "''demo''"] t
    by (simp add: early_exit_result_def)
qed

text \<open>
  Claim C3, amended. When the test run times out, \<open>analyze\<close> returns a fully populated
  result: the coverage fields are zero (branch coverage absent), \<open>tests_passed\<close> is zero,
  \<open>tests_failed\<close> and \<open>total_tests\<close> are the number of test cases, the interpretation is
  "Timeout - execution exceeded 30 seconds", the error details are "Timeout" and there is no
  report path. Nothing of the run is parsed or copied: the result depends on the identifier
  and the number of test cases only. No other exit path gives that interpretation.
\<close>

theorem analyze_timeout_result:
  assumes "timed_out w python_file"
  shows "fst (analyze w python_file test_cases pid) =
           \<lparr> problem_id = pid,
             tests_passed = 0,
             tests_failed = int (length test_cases),
             total_tests = int (length test_cases),
             line_coverage = Finite 0,
             statement_coverage = Finite 0,
             branch_coverage = None,
             statements_covered = 0,
             statements_total = 0,
             interpretation_msg = ''Timeout - execution exceeded 30 seconds'',
             error_details = [''Timeout''],
             html_report_path = [] \<rparr>
       \<and> (\<forall>p. CopyReport p \<notin> set (fst (snd (analyze w python_file test_cases pid))))
       \<and> (\<forall>w' file' cases' pid'. \<not> timed_out w' file' \<longrightarrow>
            interpretation_msg (fst (analyze w' file' cases' pid')) \<noteq>
              ''Timeout - execution exceeded 30 seconds'')"
  using assms analyze_timed_out [OF assms, of test_cases pid]
    analyze_timed_out_events [OF assms] timeout_message_only_on_timeout
  by (simp add: early_exit_result_def)

theorem analyze_timeout_result_witness:
  "timed_out timeout_world ''/work/solution.py''
   \<and> \<not> timed_out example_world ''/work/solution.py''
   \<and> fst (analyze timeout_world ''/work/solution.py'' [''solve(1) == 1'', ''solve(2) == 4''] ''demo'') =
           \<lparr> problem_id = ''demo'',
             tests_passed = 0,
             tests_failed = 2,
             total_tests = 2,
             line_coverage = Finite 0,
             statement_coverage = Finite 0,
             branch_coverage = None,
             statements_covered = 0,
             statements_total = 0,
             interpretation_msg = ''Timeout - execution exceeded 30 seconds'',
             error_details = [''Timeout''],
             html_report_path = [] \<rparr>
   \<and> interpretation_msg (fst (analyze example_world ''/work/solution.py''
        [''solve(1) == 1'', ''solve(2) == 4''] ''demo'')) \<noteq> ''Timeout - execution exceeded 30 seconds''"
proof -
  have t: "timed_out timeout_world ''/work/solution.py''"
    by (simp add: timed_out_def source_missing_def timeout_world_def example_world_def)
  have n: "\<not> timed_out example_world ''/work/solution.py''"
    by (simp add: timed_out_def example_world_def)
  show ?thesis
    using analyze_timeout_result [OF t, of "[''solve(1) == 1'', ''solve(2) == 4'']" "''demo''"] t n
    by simp
qed

text \<open>
  Claim C9, as stated: after every call the workspace directory no longer exists, the
  removal being unconditional. The \<open>finally\<close> clause swallows every exception of
  \<open>shutil.rmtree\<close>: when the removal fails, \<open>analyze\<close> returns normally and the directory
  is still on disk.
\<close>

theorem workspace_left_counterexample:
  "mkdtemp_result locked_world = ''/tmp/pytest_cov_a1'' \<and>
   ''/tmp/pytest_cov_a1'' \<in>
     snd (snd (analyze locked_world ''/work/solution.py'' [''solve(1) == 1''] ''demo''))"
proof -
  have r: "rmtree_raises locked_world" by (simp add: locked_world_def)
  have c: "completed_output locked_world ''/work/solution.py'' = Some ''2 passed in 0.01s''"
    by (simp add: completed_output_def source_missing_def locked_world_def example_world_def)
  show ?thesis
    using analyze_disk_kept [OF r c, of "[''solve(1) == 1'']" "''demo''"]
    by (simp add: locked_world_def example_world_def Let_def path_join_def startswith_def)
qed

text \<open>
  Claim C9, amended. On every exit path \<open>analyze\<close> attempts to remove the workspace exactly
  once, as its last action; whenever that removal does not raise, the workspace directory
  no longer exists afterwards; a failure of the removal is swallowed and does not change the
  returned result.
\<close>

theorem workspace_removal_attempted:
  "(\<exists>evs. fst (snd (analyze w python_file test_cases pid)) =
            Mkdtemp (mkdtemp_result w) # evs @ [Rmtree (mkdtemp_result w)]
          \<and> (\<forall>p. Rmtree p \<notin> set evs))
   \<and> (\<not> rmtree_raises w \<longrightarrow>
        mkdtemp_result w \<notin> snd (snd (analyze w python_file test_cases pid)))
   \<and> fst (analyze (w\<lparr>rmtree_raises := True\<rparr>) python_file test_cases pid) =
       fst (analyze (w\<lparr>rmtree_raises := False\<rparr>) python_file test_cases pid)"
  using analyze_events [of w python_file test_cases pid]
    analyze_disk_removed [of w python_file test_cases pid]
    analyze_result_indep_rmtree [where w = w and b = True and f = python_file and tcs = test_cases and pid = pid]
    analyze_result_indep_rmtree [where w = w and b = False and f = python_file and tcs = test_cases and pid = pid]
  by simp

theorem workspace_removal_attempted_witness:
  "\<not> rmtree_raises example_world \<and>
   mkdtemp_result example_world = ''/tmp/pytest_cov_a1'' \<and>
   ''/tmp/pytest_cov_a1'' \<notin>
     snd (snd (analyze example_world ''/work/solution.py'' [''solve(1) == 1''] ''demo''))"
proof -
  have r: "\<not> rmtree_raises example_world" by (simp add: example_world_def)
  have m: "mkdtemp_result example_world = ''/tmp/pytest_cov_a1''" by (simp add: example_world_def)
  show ?thesis
    using workspace_removal_attempted [of example_world "''/work/solution.py''"
        "[''solve(1) == 1'']" "''demo''"] r m
    by simp
qed

end
